theory Spec2Isabelle
  imports Main
begin

section \<open>JavaScript values\<close>

subsection \<open>Thrown values\<close>

text \<open>
  A thrown value is known to the code at hand through two conversions only: the template
  \<^verbatim>\<open>`${e}`\<close> and \<^verbatim>\<open>JSON.stringify(e)\<close>. Either conversion can itself throw a
  \<^verbatim>\<open>TypeError\<close>: the template for a \<^verbatim>\<open>Symbol\<close> or an object without a string
  conversion, \<^verbatim>\<open>JSON.stringify\<close> for a circular structure or a \<^verbatim>\<open>BigInt\<close>. And
  \<^verbatim>\<open>JSON.stringify\<close> returns \<^verbatim>\<open>undefined\<close>, not a string, for \<^verbatim>\<open>undefined\<close>, a function
  or a \<^verbatim>\<open>Symbol\<close>. So a thrown value is modelled by what the two conversions do with it:
  \<open>shown\<close> is the string of the template, \<open>None\<close> when the template throws; \<open>json\<close>
  is the behaviour of \<^verbatim>\<open>JSON.stringify\<close>.
\<close>

datatype stringified = Str string | NoValue | Unserialisable

datatype jsexn = Exn (shown: "string option") (json: stringified)

text \<open>
  A \<^verbatim>\<open>TypeError\<close> is an \<^verbatim>\<open>Error\<close> object: the template gives its name and message,
  \<^verbatim>\<open>JSON.stringify\<close> gives \<^verbatim>\<open>{}\<close>.
\<close>

definition typeError :: "string \<Rightarrow> jsexn" where
  "typeError what = Exn (Some (''TypeError: '' @ what)) (Str ''{}'')"

text \<open>A value that may be \<^verbatim>\<open>null\<close> or \<^verbatim>\<open>undefined\<close>.\<close>

datatype 'a nullish = Null | Undefined | Value 'a

text \<open>The errors of the two conversions.\<close>

definition templateError :: jsexn where
  "templateError = typeError ''Cannot convert the thrown value to a string''"

definition stringifyError :: jsexn where
  "stringifyError = typeError ''Cannot serialise the thrown value to JSON''"

text \<open>\<^verbatim>\<open>`${e}`\<close>\<close>

definition templateString :: "jsexn \<Rightarrow> jsexn + string" where
  "templateString e = (case shown e of None \<Rightarrow> Inl templateError | Some s \<Rightarrow> Inr s)"

text \<open>\<^verbatim>\<open>JSON.stringify(e)\<close>\<close>

definition stringify :: "jsexn \<Rightarrow> jsexn + string nullish" where
  "stringify e =
     (case json e of
        Str s \<Rightarrow> Inr (Value s)
      | NoValue \<Rightarrow> Inr Undefined
      | Unserialisable \<Rightarrow> Inl stringifyError)"

subsection \<open>Numbers\<close>

text \<open>
  A JavaScript number is a double. The era indices are integers (the \<open>EraIndex\<close> of the
  specification); fractions, \<^verbatim>\<open>NaN\<close> and the infinities are not modelled. An integer is a
  double when it has at most 53 significant bits; the result of an arithmetic operation
  is the nearest double, the one with the even significand in case of a tie.
  \<open>toDouble\<close> rounds an integer in this way. (Integers from \<open>2 ^ 1024\<close> on, which
  round to \<^verbatim>\<open>Infinity\<close>, stay above every double here, as \<^verbatim>\<open>Infinity\<close> does.)
\<close>

fun bitLength :: "nat \<Rightarrow> nat" where
  "bitLength n = (if n = 0 then 0 else Suc (bitLength (n div 2)))"

declare bitLength.simps [simp del]

definition roundNat :: "nat \<Rightarrow> nat" where
  "roundNat n =
     (if n \<le> 2 ^ 53 then n
      else
        let ulp = 2 ^ (bitLength n - 53);
            q = n div ulp;
            r = n mod ulp
        in if ulp < 2 * r \<or> (2 * r = ulp \<and> odd q) then (q + 1) * ulp else q * ulp)"

definition toDouble :: "int \<Rightarrow> int" where
  "toDouble x = (if x < 0 then - int (roundNat (nat (- x))) else int (roundNat (nat x)))"

text \<open>
  \<^verbatim>\<open>Number(x)\<close> for an integer \<open>x\<close>, given as a number, a decimal string or a
  \<^verbatim>\<open>BigInt\<close>: the nearest double, \<open>x\<close> itself when \<open>x\<close> is a double.
\<close>

definition Number :: "int \<Rightarrow> int" where
  "Number x = toDouble x"

text \<open>\<^verbatim>\<open>a - b\<close> on doubles \<open>a\<close> and \<open>b\<close>.\<close>

definition jsMinus :: "int \<Rightarrow> int \<Rightarrow> int" where
  "jsMinus a b = toDouble (a - b)"

text \<open>
  The value of \<^verbatim>\<open>Math.floor((processedNominatorGroups / totalNominatorGroups) * 100)\<close>:
  an integer or, after a division by zero, \<^verbatim>\<open>Infinity\<close>.
\<close>

datatype jsnumber = Num int | PosInfinity

text \<open>
  The truth value of a string that may be \<^verbatim>\<open>null\<close>, as in \<^verbatim>\<open>if (err)\<close>: \<^verbatim>\<open>null\<close>
  and the empty string are falsy, every other string is truthy.
\<close>

fun truthy :: "string option \<Rightarrow> bool" where
  "truthy None = False"
| "truthy (Some s) = (s \<noteq> [])"

text \<open>The template \<^verbatim>\<open>${err}\<close> for a string that may be \<^verbatim>\<open>null\<close>.\<close>

fun render :: "string option \<Rightarrow> string" where
  "render None = ''null''"
| "render (Some s) = s"

text \<open>The decimal rendering of a counter in a template.\<close>

fun showNat :: "nat \<Rightarrow> string" where
  "showNat n =
     (if n < 10 then [char_of (48 + n)]
      else showNat (n div 10) @ [char_of (48 + n mod 10)])"

declare showNat.simps [simp del]

section \<open>The main scorekeeper job (\<open>mainScorekeeperJob\<close>, the spec's \<open>runRound\<close>)\<close>

text \<open>
  The job is an \<^verbatim>\<open>async\<close> function returning \<^verbatim>\<open>Promise<void>\<close>: what it does is the
  sequence of calls it makes on its collaborators. The model returns that sequence (a
  trace of actions, in program order) together with the way the promise settles.

  The collaborators (\<^verbatim>\<open>chaindata.getActiveEraIndex\<close>, \<^verbatim>\<open>queries.getLastNominatedEraIndex\<close>,
  \<^verbatim>\<open>queries.getCurrentTargets\<close>, \<^verbatim>\<open>startRound\<close>, \<^verbatim>\<open>endRound\<close>, \<^verbatim>\<open>jobStatusEmitter\<close>,
  \<^verbatim>\<open>Date.now\<close>) are imported from files that are not part of the sources at hand. What
  they do is a parameter of the model (the record \<open>world\<close>): each awaited call, and the
  call of \<^verbatim>\<open>emit\<close>, either returns (\<open>Inr\<close>) or throws (\<open>Inl\<close>), and the job has no
  \<^verbatim>\<open>try\<close> block, so a throw ends the job and rejects its promise. An answer that cannot
  be taken apart (\<^verbatim>\<open>null\<close> where the job destructures or spreads) throws at the same
  place and is covered by \<open>Inl\<close>. The calls are recorded in the trace. The logger and
  \<^verbatim>\<open>Date.now\<close> return.
\<close>

subsection \<open>Data\<close>

record nominator =
  bondedAddress :: string

text \<open>An element of \<^verbatim>\<open>allCurrentTargets\<close>: \<^verbatim>\<open>{name?: string; stash?: string; identity?: any}\<close>.\<close>

record target =
  targetName :: "string option"
  targetStash :: "string option"
  targetIdentity :: "string option"

record progressEvent =
  name :: string
  progress :: jsnumber
  updated :: int
  iteration :: string

datatype action =
    LogInfo string
  | LogWarn string
  | GetActiveEraIndex
  | GetLastNominatedEraIndex
  | GetCurrentTargets string
  | EndRound
  | StartRound "target list"
  | Emit string progressEvent

text \<open>How the promise settles: resolved, or rejected with the thrown value.\<close>

datatype outcome = Returned | Threw jsexn

text \<open>
  The fields of \<^verbatim>\<open>jobsMetadata\<close> that the job reads. \<open>networkPrefix\<close> is
  \<^verbatim>\<open>config.global.networkPrefix\<close> and \<open>scorekeeperNominating\<close> is
  \<^verbatim>\<open>config.scorekeeper.nominating\<close>. \<open>nominatorGroups\<close> is \<open>None\<close> when the field is
  \<^verbatim>\<open>null\<close> or \<^verbatim>\<open>undefined\<close>, the case the source tests with
  \<^verbatim>\<open>nominatorGroups ? nominatorGroups.length : 0\<close>. The remaining fields
  (\<^verbatim>\<open>constraints\<close>, \<^verbatim>\<open>nominating\<close>, \<^verbatim>\<open>currentEra\<close>, \<^verbatim>\<open>bot\<close>, \<^verbatim>\<open>handler\<close>) are
  only handed on to \<^verbatim>\<open>startRound\<close> and \<^verbatim>\<open>endRound\<close>; \<^verbatim>\<open>chaindata\<close> is used for
  \<^verbatim>\<open>getActiveEraIndex\<close> and handed on.
\<close>

record metadata =
  ending :: bool
  networkPrefix :: int
  scorekeeperNominating :: bool
  nominatorGroups :: "nominator list option"

text \<open>
  What the collaborators do during one invocation. \<open>getActiveEraIndex\<close> answers with the
  pair \<^verbatim>\<open>[activeEra, err]\<close> (\<open>None\<close> for \<^verbatim>\<open>null\<close>), \<open>getLastNominatedEraIndex\<close> with
  the field \<^verbatim>\<open>lastNominatedEraIndex\<close> of the stored record, \<open>getCurrentTargets\<close> with the
  targets of a bonded address; \<open>endRound\<close>, \<open>startRound\<close> and \<open>emit\<close> return nothing
  the job uses; \<open>now\<close> is the value of \<^verbatim>\<open>Date.now()\<close>.
\<close>

record world =
  getActiveEraIndex :: "jsexn + int \<times> string option"
  getLastNominatedEraIndex :: "jsexn + int"
  getCurrentTargets :: "string \<Rightarrow> jsexn + target list"
  endRound :: "jsexn + unit"
  startRound :: "jsexn + unit"
  emit :: "jsexn + unit"
  now :: int

subsection \<open>Operations\<close>

text \<open>\<^verbatim>\<open>config.global.networkPrefix == 0 ? 1 : 4\<close>\<close>

definition eraBuffer :: "int \<Rightarrow> int" where
  "eraBuffer prefix = (if prefix = 0 then 1 else 4)"

text \<open>
  The loop \<^verbatim>\<open>for (const nominator of nominatorGroups)\<close>: one \<^verbatim>\<open>getCurrentTargets\<close> call
  per group, its result pushed onto \<^verbatim>\<open>allCurrentTargets\<close>; a call that throws ends the
  loop.
\<close>

fun gatherTargets ::
  "world \<Rightarrow> nominator list \<Rightarrow> target list \<Rightarrow> action list
     \<Rightarrow> (jsexn + target list) \<times> action list" where
  "gatherTargets w [] allCurrentTargets tr = (Inr allCurrentTargets, tr)"
| "gatherTargets w (g # gs) allCurrentTargets tr =
     (case getCurrentTargets w (bondedAddress g) of
        Inl e \<Rightarrow> (Inl e, tr @ [GetCurrentTargets (bondedAddress g)])
      | Inr currentTargets \<Rightarrow>
          gatherTargets w gs (allCurrentTargets @ currentTargets)
            (tr @ [GetCurrentTargets (bondedAddress g)]))"

text \<open>
  \<^verbatim>\<open>if (!allCurrentTargets.length) { startRound } else { endRound; startRound }\<close>: the
  result is that of the last call made.
\<close>

definition startOrRestart ::
  "world \<Rightarrow> target list \<Rightarrow> action list \<Rightarrow> (jsexn + unit) \<times> action list" where
  "startOrRestart w allCurrentTargets tr =
     (if length allCurrentTargets = 0 then
        (startRound w,
         tr @ [LogInfo ''Current Targets is empty. Starting round.'',
               StartRound allCurrentTargets])
      else
        case endRound w of
          Inl e \<Rightarrow> (Inl e, tr @ [LogInfo ''Ending round.'', EndRound])
        | Inr u \<Rightarrow>
            (startRound w,
             tr @ [LogInfo ''Ending round.'', EndRound, StartRound allCurrentTargets]))"

text \<open>
  \<^verbatim>\<open>Math.floor((processedNominatorGroups / totalNominatorGroups) * 100)\<close> where it is
  computed, that is with \<^verbatim>\<open>processedNominatorGroups\<close> equal to 1. In double precision
  \<^verbatim>\<open>1 / 0\<close> is \<^verbatim>\<open>Infinity\<close>, and so are its product with 100 and the floor of that; for a
  positive total the floor of the double \<^verbatim>\<open>(1 / total) * 100\<close> is the integer quotient of
  100 by the total (the two agree for every total from 1 to 100, and both are 0 beyond).
\<close>

definition progressPercentage :: "nat \<Rightarrow> jsnumber" where
  "progressPercentage totalNominatorGroups =
     (if totalNominatorGroups = 0 then PosInfinity
      else Num (100 div int totalNominatorGroups))"

text \<open>
  The body of \<^verbatim>\<open>if (isNominationRound) { ... }\<close>, entered with the trace \<open>tr\<close> of the
  calls made so far. Iterating over a \<^verbatim>\<open>null\<close> or \<^verbatim>\<open>undefined\<close> group collection
  throws a \<^verbatim>\<open>TypeError\<close>.
\<close>

definition nominationRound :: "metadata \<Rightarrow> world \<Rightarrow> action list \<Rightarrow> outcome \<times> action list" where
  "nominationRound m w tr =
     (let processedNominatorGroups = (0::nat);
          totalNominatorGroups = (case nominatorGroups m of None \<Rightarrow> 0 | Some gs \<Rightarrow> length gs)
      in
      if \<not> scorekeeperNominating m then
        (Returned, tr @ [LogInfo ''Nominating is disabled in the settings. Skipping round.''])
      else
        case nominatorGroups m of
          None \<Rightarrow> (Threw (typeError ''nominatorGroups is not iterable''), tr)
        | Some gs \<Rightarrow>
            (case gatherTargets w gs [] tr of
               (Inl e, tr') \<Rightarrow> (Threw e, tr')
             | (Inr allCurrentTargets, tr') \<Rightarrow>
                 (case startOrRestart w allCurrentTargets tr' of
                    (Inl e, tr'') \<Rightarrow> (Threw e, tr'')
                  | (Inr u, tr'') \<Rightarrow>
                      let processedNominatorGroups = processedNominatorGroups + 1;
                          progress = progressPercentage totalNominatorGroups
                      in
                      (case emit w of Inl e \<Rightarrow> Threw e | Inr u \<Rightarrow> Returned,
                       tr'' @ [Emit ''jobProgress''
                                 \<lparr>name = ''Main Scorekeeper Job'',
                                  progress = progress,
                                  updated = now w,
                                  iteration =
                                    ''Processed nominator group ''
                                      @ showNat processedNominatorGroups\<rparr>]))))"

definition mainScorekeeperJob :: "metadata \<Rightarrow> world \<Rightarrow> outcome \<times> action list" where
  "mainScorekeeperJob m w =
     (if ending m then (Returned, [LogInfo ''ROUND IS CURRENTLY ENDING.''])
      else
        case getActiveEraIndex w of
          Inl e \<Rightarrow> (Threw e, [GetActiveEraIndex])
        | Inr (activeEra, err) \<Rightarrow>
            if truthy err then
              (Returned, [GetActiveEraIndex, LogWarn (''CRITICAL: '' @ render err)])
            else
              (case getLastNominatedEraIndex w of
                 Inl e \<Rightarrow> (Threw e, [GetActiveEraIndex, GetLastNominatedEraIndex])
               | Inr lastNominatedEraIndex \<Rightarrow>
                   let isNominationRound =
                         (Number lastNominatedEraIndex
                            \<le> jsMinus activeEra (eraBuffer (networkPrefix m)))
                   in
                   if isNominationRound then
                     nominationRound m w [GetActiveEraIndex, GetLastNominatedEraIndex]
                   else (Returned, [GetActiveEraIndex, GetLastNominatedEraIndex])))"

subsection \<open>Observations on a trace\<close>

fun isRoundCall :: "action \<Rightarrow> bool" where
  "isRoundCall EndRound = True"
| "isRoundCall (StartRound ts) = True"
| "isRoundCall a = False"

fun isEmit :: "action \<Rightarrow> bool" where
  "isEmit (Emit n e) = True"
| "isEmit a = False"

fun isRead :: "action \<Rightarrow> bool" where
  "isRead GetActiveEraIndex = True"
| "isRead GetLastNominatedEraIndex = True"
| "isRead (GetCurrentTargets a) = True"
| "isRead a = False"

text \<open>The calls of \<^verbatim>\<open>startRound\<close> and \<^verbatim>\<open>endRound\<close> of a run, in order.\<close>

definition roundCalls :: "outcome \<times> action list \<Rightarrow> action list" where
  "roundCalls r = filter isRoundCall (snd r)"

text \<open>The emitted events of a run, in order.\<close>

definition emitted :: "outcome \<times> action list \<Rightarrow> action list" where
  "emitted r = filter isEmit (snd r)"

text \<open>
  The combined target list of a group collection: the answers of \<^verbatim>\<open>getCurrentTargets\<close>
  for the groups, in order, or the first throw.
\<close>

fun combinedTargets :: "world \<Rightarrow> nominator list \<Rightarrow> jsexn + target list" where
  "combinedTargets w [] = Inr []"
| "combinedTargets w (g # gs) =
     (case getCurrentTargets w (bondedAddress g) of
        Inl e \<Rightarrow> Inl e
      | Inr ts \<Rightarrow> (case combinedTargets w gs of Inl e \<Rightarrow> Inl e | Inr rest \<Rightarrow> Inr (ts @ rest)))"

section \<open>The chain queries (\<^verbatim>\<open>ValidatorPref.ts\<close>)\<close>

text \<open>
  Each query is an \<^verbatim>\<open>async\<close> function whose whole body is a \<^verbatim>\<open>try\<close> block with a
  \<^verbatim>\<open>catch\<close> that logs and returns a fixed value. A promise is modelled by the way it
  settles (\<open>Inl e\<close>: rejected with \<open>e\<close>, \<open>Inr v\<close>: resolved with \<open>v\<close>) and the lines
  written with \<^verbatim>\<open>logger.error\<close>. The \<^verbatim>\<open>catch\<close> block is code as well: its template
  \<^verbatim>\<open>`${e}`\<close> and its \<^verbatim>\<open>JSON.stringify(e)\<close> can throw, and then the promise is rejected.
\<close>

subsection \<open>Data\<close>

type_synonym 'a promise = "(jsexn + 'a) \<times> string list"

text \<open>
  \<^verbatim>\<open>NumberResult\<close>: the pair of a number and a reason. The reason is declared as
  \<^verbatim>\<open>string | null\<close>; it is \<^verbatim>\<open>undefined\<close> when \<^verbatim>\<open>JSON.stringify\<close> returns that.
\<close>

type_synonym NumberResult = "int \<times> string nullish"

text \<open>
  The values the chain API answers with, as far as the queries look into them. A field
  of type \<open>option\<close> is \<open>None\<close> when the property is \<^verbatim>\<open>undefined\<close>.
  \<open>commission\<close> is \<^verbatim>\<open>prefs.commission.toNumber()\<close>, \<open>blocked\<close> is
  \<^verbatim>\<open>prefs.blocked.toString()\<close>.
\<close>

record validatorPrefs =
  commission :: "int option"
  blocked :: "string option"

text \<open>\<^verbatim>\<open>bondedAddress.isNone\<close>, \<^verbatim>\<open>bondedAddress.toString()\<close>\<close>

record bondedEntry =
  bondedIsNone :: bool
  bondedToString :: string

text \<open>\<^verbatim>\<open>ledger.isNone\<close>, \<^verbatim>\<open>ledger.toJSON().active\<close>\<close>

record ledger =
  ledgerIsNone :: bool
  ledgerActive :: int

text \<open>\<^verbatim>\<open>rewardDestination.toJSON().account\<close>, \<^verbatim>\<open>rewardDestination.toString()\<close>\<close>

record rewardDestination =
  payeeAccount :: "string option"
  payeeToString :: string

text \<open>\<^verbatim>\<open>nextKeysRaw.toJSON()\<close>: \<^verbatim>\<open>null\<close>, a primitive, or an object with its entries.\<close>

datatype json = JNull | JPrimitive string | JObject "(string \<times> string) list"

text \<open>\<^verbatim>\<open>accountData?.data?.free?.toString()\<close>\<close>

record accountData =
  dataFree :: "string option"

text \<open>
  An element of \<^verbatim>\<open>eraStakers.others\<close>: \<^verbatim>\<open>stake.who.toString()\<close>,
  \<^verbatim>\<open>stake.value.toString()\<close> and the number \<^verbatim>\<open>stake.value\<close> of its JSON form.
\<close>

record 'n stakeEntry =
  who :: string
  valueString :: string
  valueNumber :: 'n

text \<open>\<^verbatim>\<open>eraStakers.total.toString()\<close>, \<^verbatim>\<open>eraStakers.own.toString()\<close>, \<^verbatim>\<open>eraStakers.others\<close>\<close>

record 'n eraStakers =
  stakersTotal :: string
  stakersOwn :: string
  stakersOthers :: "'n stakeEntry list"

text \<open>
  The storage queries of \<^verbatim>\<open>api.query\<close> (and of \<^verbatim>\<open>apiAt.query\<close>). Each call throws or
  answers; an answer of \<open>None\<close> is \<^verbatim>\<open>undefined\<close>.
\<close>

record 'n api =
  staking_validators :: "string \<Rightarrow> jsexn + validatorPrefs option"
  staking_erasValidatorPrefs :: "int \<Rightarrow> string \<Rightarrow> jsexn + validatorPrefs option"
  staking_bonded :: "string \<Rightarrow> jsexn + bondedEntry option"
  staking_ledger :: "string \<Rightarrow> jsexn + ledger option"
  staking_payee :: "string \<Rightarrow> jsexn + rewardDestination option"
  session_queuedKeys :: "jsexn + (string \<times> string) list option"
  session_nextKeys :: "string \<Rightarrow> jsexn + json option"
  system_account :: "string \<Rightarrow> jsexn + accountData option"
  staking_erasStakers :: "int \<Rightarrow> string \<Rightarrow> jsexn + 'n eraStakers option"

text \<open>\<^verbatim>\<open>ChainData\<close>: \<open>chainApi\<close> is the field \<^verbatim>\<open>api\<close>, \<open>None\<close> when it is not set.\<close>

record 'n ChainData =
  checkApiConnection :: "jsexn + unit"
  chainApi :: "'n api option"
  getDenom :: "jsexn + 'n"





record 'n Stake =
  stakeAddress :: string
  bonded :: 'n


subsection \<open>Control\<close>

text \<open>Sequencing inside a \<^verbatim>\<open>try\<close> block: a throw skips the rest.\<close>

definition andThen :: "jsexn + 'a \<Rightarrow> ('a \<Rightarrow> jsexn + 'b) \<Rightarrow> jsexn + 'b" where
  "andThen r f = (case r of Inl e \<Rightarrow> Inl e | Inr v \<Rightarrow> f v)"

text \<open>\<^verbatim>\<open>try { body } catch (e) { handler }\<close>\<close>

definition tryCatch :: "jsexn + 'a \<Rightarrow> (jsexn \<Rightarrow> 'a promise) \<Rightarrow> 'a promise" where
  "tryCatch body handler = (case body of Inl e \<Rightarrow> handler e | Inr v \<Rightarrow> (Inr v, []))"


text \<open>
  The \<^verbatim>\<open>catch\<close> block
  \<^verbatim>\<open>logger.error(`message: ${e}`, label); return [0, JSON.stringify(e)]\<close>: when
  \<^verbatim>\<open>JSON.stringify\<close> throws, the line is logged and the promise is rejected.
\<close>

definition catchStringify :: "string \<Rightarrow> jsexn \<Rightarrow> NumberResult promise" where
  "catchStringify message e =
     (case templateString e of
        Inl x \<Rightarrow> (Inl x, [])
      | Inr s \<Rightarrow>
          (case stringify e of
             Inl x \<Rightarrow> (Inl x, [message @ s])
           | Inr reason \<Rightarrow> (Inr (0, reason), [message @ s])))"

text \<open>\<^verbatim>\<open>chaindata?.api?.query.f(...)\<close>: \<^verbatim>\<open>undefined\<close> when there is no \<^verbatim>\<open>api\<close>.\<close>

definition viaApi :: "'n ChainData \<Rightarrow> ('n api \<Rightarrow> jsexn + 'a option) \<Rightarrow> jsexn + 'a option" where
  "viaApi chaindata q = (case chainApi chaindata of None \<Rightarrow> Inr None | Some a \<Rightarrow> q a)"

subsection \<open>The queries\<close>

definition getCommission :: "'n ChainData \<Rightarrow> string \<Rightarrow> NumberResult promise" where
  "getCommission chaindata validator =
     tryCatch
       (andThen (checkApiConnection chaindata) (\<lambda>_.
        andThen (viaApi chaindata (\<lambda>a. staking_validators a validator)) (\<lambda>prefs.
          case prefs of
            None \<Rightarrow> Inr (0, Value ''No preferences found.'')
          | Some p \<Rightarrow>
              (case commission p of
                 None \<Rightarrow> Inl (typeError ''Cannot read properties of undefined'')
               | Some n \<Rightarrow> Inr (n, Null)))))
       (catchStringify ''Error getting commission: '')"



definition getBondedAmount :: "'n ChainData \<Rightarrow> string \<Rightarrow> NumberResult promise" where
  "getBondedAmount chaindata stash =
     tryCatch
       (andThen (checkApiConnection chaindata) (\<lambda>_.
        andThen (viaApi chaindata (\<lambda>a. staking_bonded a stash)) (\<lambda>bondedAddress.
          case bondedAddress of
            None \<Rightarrow> Inr (0, Value ''Not bonded to any account.'')
          | Some b \<Rightarrow>
              if bondedIsNone b then Inr (0, Value ''Not bonded to any account.'')
              else
                andThen (viaApi chaindata (\<lambda>a. staking_ledger a (bondedToString b))) (\<lambda>ledger.
                  case ledger of
                    None \<Rightarrow> Inr (0, Value ''Ledger is empty.'')
                  | Some l \<Rightarrow>
                      if ledgerIsNone l then Inr (0, Value ''Ledger is empty.'')
                      else Inr (ledgerActive l, Null)))))
       (catchStringify ''Error getting bonded amount: '')"













section \<open>Example inputs\<close>

text \<open>
  Three nominator groups on network prefix 0, active era 100, last nominated era 95; the
  second group has one current target; every call returns.
\<close>

definition exampleMetadata :: metadata where
  "exampleMetadata =
     \<lparr>ending = False, networkPrefix = 0, scorekeeperNominating = True,
      nominatorGroups =
        Some [\<lparr>bondedAddress = ''g1''\<rparr>, \<lparr>bondedAddress = ''g2''\<rparr>, \<lparr>bondedAddress = ''g3''\<rparr>]\<rparr>"

definition exampleWorld :: world where
  "exampleWorld =
     \<lparr>getActiveEraIndex = Inr (100, None), getLastNominatedEraIndex = Inr 95,
      getCurrentTargets =
        (\<lambda>a. if a = ''g2''
             then Inr [\<lparr>targetName = Some ''v1'', targetStash = Some ''s1'',
                        targetIdentity = None\<rparr>]
             else Inr []),
      endRound = Inr (), startRound = Inr (), emit = Inr (),
      now = 1700000000000\<rparr>"

text \<open>
  Three thrown values: an \<^verbatim>\<open>Error\<close> object; a \<^verbatim>\<open>Symbol\<close>, for which the template
  throws; an object with a circular reference, for which \<^verbatim>\<open>JSON.stringify\<close> throws.
\<close>

definition exampleError :: jsexn where
  "exampleError = Exn (Some ''Error: connection lost'') (Str ''{}'')"



text \<open>
  A chain on which \<open>alice\<close> is bonded with a ledger of 1000 and has preferences,
  \<open>bob\<close> has an empty bonded entry, \<open>carol\<close> an empty ledger, \<open>dave\<close> no ledger, and
  nobody else is known.
\<close>

definition exampleApi :: "int api" where
  "exampleApi =
     \<lparr>staking_validators =
        (\<lambda>v. if v = ''alice'' then Inr (Some \<lparr>commission = Some 5, blocked = Some ''true''\<rparr>)
             else Inr None),
      staking_erasValidatorPrefs = (\<lambda>era v. Inr None),
      staking_bonded =
        (\<lambda>s. if s = ''alice'' then Inr (Some \<lparr>bondedIsNone = False, bondedToString = ''ctrl-a''\<rparr>)
             else if s = ''bob'' then Inr (Some \<lparr>bondedIsNone = True, bondedToString = []\<rparr>)
             else if s = ''carol'' then Inr (Some \<lparr>bondedIsNone = False, bondedToString = ''ctrl-c''\<rparr>)
             else if s = ''dave'' then Inr (Some \<lparr>bondedIsNone = False, bondedToString = ''ctrl-d''\<rparr>)
             else Inr None),
      staking_ledger =
        (\<lambda>s. if s = ''ctrl-a'' then Inr (Some \<lparr>ledgerIsNone = False, ledgerActive = 1000\<rparr>)
             else if s = ''ctrl-c'' then Inr (Some \<lparr>ledgerIsNone = True, ledgerActive = 0\<rparr>)
             else Inr None),
      staking_payee = (\<lambda>s. Inr None),
      session_queuedKeys = Inr None,
      session_nextKeys = (\<lambda>s. Inr None),
      system_account = (\<lambda>s. Inr None),
      staking_erasStakers = (\<lambda>era v. Inr None)\<rparr>"

definition exampleChain :: "int ChainData" where
  "exampleChain = \<lparr>checkApiConnection = Inr (), chainApi = Some exampleApi, getDenom = Inr 1\<rparr>"

section \<open>Properties of double rounding\<close>

lemma bitLength_bounds:
  "0 < n \<Longrightarrow> 2 ^ (bitLength n - 1) \<le> n \<and> n < 2 ^ bitLength n"
proof (induction n rule: bitLength.induct)
  case (1 n)
  show ?case
  proof (cases "n div 2 = 0")
    case True
    with "1.prems" have "n = 1" by presburger
    then show ?thesis by (simp add: bitLength.simps)
  next
    case False
    then have pos: "0 < n div 2" by simp
    from "1.IH" [OF _ pos] "1.prems"
    have ih: "2 ^ (bitLength (n div 2) - 1) \<le> n div 2" "n div 2 < 2 ^ bitLength (n div 2)"
      by simp_all
    have bl: "bitLength n = Suc (bitLength (n div 2))"
      using "1.prems" by (subst bitLength.simps) simp
    have "0 < bitLength (n div 2)"
      using pos by (subst bitLength.simps) simp
    then have e: "bitLength n - 1 = Suc (bitLength (n div 2) - 1)"
      using bl by simp
    have "2 * 2 ^ (bitLength (n div 2) - 1) \<le> 2 * (n div 2)" using ih(1) by simp
    also have "\<dots> \<le> n" by presburger
    finally have "2 * 2 ^ (bitLength (n div 2) - 1) \<le> n" .
    then have lo: "2 ^ (bitLength n - 1) \<le> n" by (simp only: e power_Suc)
    have "n < 2 * (n div 2) + 2" by presburger
    also have "\<dots> \<le> 2 * 2 ^ bitLength (n div 2)" using ih(2) by simp
    finally have hi: "n < 2 ^ bitLength n" by (simp add: bl)
    from lo hi show ?thesis by simp
  qed
qed

lemma bitLength_mono: "m \<le> n \<Longrightarrow> bitLength m \<le> bitLength n"
proof (rule ccontr)
  assume mn: "m \<le> n" and "\<not> bitLength m \<le> bitLength n"
  then have lt: "bitLength n < bitLength m" by simp
  then have mpos: "0 < m" by (cases "m = 0") (simp_all add: bitLength.simps)
  show False
  proof (cases "n = 0")
    case True
    with mn mpos show False by simp
  next
    case False
    then have "n < 2 ^ bitLength n" using bitLength_bounds by simp
    also have "(2::nat) ^ bitLength n \<le> 2 ^ (bitLength m - 1)"
      using lt by (intro power_increasing) simp_all
    also have "\<dots> \<le> m" using bitLength_bounds mpos by simp
    finally show False using mn by simp
  qed
qed

lemma bitLength_large: "2 ^ 53 < n \<Longrightarrow> 54 \<le> bitLength n"
proof (rule ccontr)
  assume n: "2 ^ 53 < n" and "\<not> 54 \<le> bitLength n"
  then have "bitLength n \<le> 53" by simp
  then have "(2::nat) ^ bitLength n \<le> 2 ^ 53"
    by (intro power_increasing) simp_all
  moreover have "n < 2 ^ bitLength n" using bitLength_bounds [of n] n by simp
  ultimately show False using n by simp
qed

text \<open>A number between \<open>2 ^ k\<close> and \<open>2 ^ (k + 1)\<close> has \<open>k + 1\<close> bits.\<close>

lemma bitLength_eq:
  assumes "2 ^ k \<le> n" and "n < 2 ^ Suc k"
  shows "bitLength n = Suc k"
proof -
  have npos: "0 < n" using assms(1) by (cases "n = 0") simp_all
  note b = bitLength_bounds [OF npos]
  have "(2::nat) ^ (bitLength n - 1) < 2 ^ Suc k" using b assms(2) by linarith
  then have "bitLength n - 1 < Suc k" by (simp only: power_strict_increasing_iff rel_simps)
  moreover have "(2::nat) ^ k < 2 ^ bitLength n" using b assms(1) by linarith
  then have "k < bitLength n" by (simp only: power_strict_increasing_iff rel_simps)
  ultimately show ?thesis by simp
qed

text \<open>The parts of a number above \<open>2 ^ 53\<close>: its unit in the last place and its significand.\<close>

lemma round_parts:
  assumes "2 ^ 53 < n"
  defines "u \<equiv> (2::nat) ^ (bitLength n - 53)"
  shows "2 ^ (bitLength n - 1) = 2 ^ 52 * u" and "2 ^ bitLength n = 2 ^ 53 * u"
    and "2 ^ 52 \<le> n div u" and "n div u < 2 ^ 53" and "0 < u"
proof -
  have L: "54 \<le> bitLength n" using bitLength_large [OF assms(1)] .
  have "bitLength n - 1 = 52 + (bitLength n - 53)" using L by simp
  then show a: "2 ^ (bitLength n - 1) = 2 ^ 52 * u"
    unfolding u_def by (simp only: power_add)
  have "bitLength n = 53 + (bitLength n - 53)" using L by simp
  then have "(2::nat) ^ bitLength n = 2 ^ (53 + (bitLength n - 53))" by simp
  then show b: "2 ^ bitLength n = 2 ^ 53 * u"
    unfolding u_def by (simp only: power_add)
  show u: "0 < u" by (simp add: u_def)
  have npos: "0 < n" using assms(1) by (cases "n = 0") simp_all
  have lo: "2 ^ 52 * u \<le> n" using bitLength_bounds [OF npos] a by simp
  have hi: "n < 2 ^ 53 * u" using bitLength_bounds [OF npos] b by simp
  from lo u show "2 ^ 52 \<le> n div u"
    by (simp add: less_eq_div_iff_mult_less_eq)
  from hi u show "n div u < 2 ^ 53"
    by (simp add: div_less_iff_less_mult)
qed

lemma roundNat_small: "n \<le> 2 ^ 53 \<Longrightarrow> roundNat n = n"
  by (simp add: roundNat_def)

lemma roundNat_cases:
  assumes "2 ^ 53 < n"
  shows "roundNat n = (n div 2 ^ (bitLength n - 53)) * 2 ^ (bitLength n - 53)
       \<or> roundNat n = (n div 2 ^ (bitLength n - 53) + 1) * 2 ^ (bitLength n - 53)"
  using assms by (simp add: roundNat_def Let_def)

text \<open>Rounding stays within the binade.\<close>

lemma roundNat_bounds:
  assumes "2 ^ 53 < n"
  shows "2 ^ (bitLength n - 1) \<le> roundNat n" and "roundNat n \<le> 2 ^ bitLength n"
proof -
  let ?u = "(2::nat) ^ (bitLength n - 53)"
  let ?q = "n div ?u"
  note p = round_parts [OF assms]
  have lo: "2 ^ 52 * ?u \<le> ?q * ?u" using p(3) by simp
  have hi: "(?q + 1) * ?u \<le> 2 ^ 53 * ?u" using p(4) by (intro mult_le_mono1) simp
  have step: "?q * ?u \<le> (?q + 1) * ?u" by simp
  from roundNat_cases [OF assms] lo step
  show "2 ^ (bitLength n - 1) \<le> roundNat n"
    unfolding p(1) by (elim disjE) linarith+
  from roundNat_cases [OF assms] hi step
  show "roundNat n \<le> 2 ^ bitLength n"
    unfolding p(2) by (elim disjE) linarith+
qed

lemma round_choice_mono:
  fixes u q r r' :: nat
  assumes "r \<le> r'"
  shows "(if u < 2 * r \<or> (2 * r = u \<and> odd q) then (q + 1) * u else q * u)
       \<le> (if u < 2 * r' \<or> (2 * r' = u \<and> odd q) then (q + 1) * u else q * u)"
  using assms by auto

lemma remainder_le:
  fixes m n u :: nat
  assumes "m \<le> n" and "m div u = n div u"
  shows "m mod u \<le> n mod u"
proof -
  have "(n div u) * u + m mod u = m"
    using div_mult_mod_eq [of m u] by (simp only: assms(2))
  moreover have "(n div u) * u + n mod u = n"
    by (rule div_mult_mod_eq)
  ultimately show ?thesis using assms(1) by linarith
qed

text \<open>Rounding to the nearest double is monotone.\<close>

lemma roundNat_mono:
  assumes "m \<le> n"
  shows "roundNat m \<le> roundNat n"
proof (cases "n \<le> 2 ^ 53")
  case True
  with assms show ?thesis by (simp add: roundNat_small)
next
  case nbig: False
  then have nb: "2 ^ 53 < n" by simp
  show ?thesis
  proof (cases "m \<le> 2 ^ 53")
    case True
    have "(2::nat) ^ 53 \<le> 2 ^ (bitLength n - 1)"
      using bitLength_large [OF nb] by (intro power_increasing) simp_all
    with roundNat_bounds(1) [OF nb] True show ?thesis by (simp add: roundNat_small)
  next
    case False
    then have mb: "2 ^ 53 < m" by simp
    have le: "bitLength m \<le> bitLength n" using assms by (rule bitLength_mono)
    show ?thesis
    proof (cases "bitLength m = bitLength n")
      case False
      with le have "bitLength m \<le> bitLength n - 1" by simp
      then have "(2::nat) ^ bitLength m \<le> 2 ^ (bitLength n - 1)"
        by (intro power_increasing) simp_all
      with roundNat_bounds(2) [OF mb] roundNat_bounds(1) [OF nb] show ?thesis by linarith
    next
      case True
      let ?u = "(2::nat) ^ (bitLength n - 53)"
      have qle: "m div ?u \<le> n div ?u" using assms by (rule div_le_mono)
      show ?thesis
      proof (cases "m div ?u = n div ?u")
        case False
        with qle have "m div ?u + 1 \<le> n div ?u" by simp
        then have "(m div ?u + 1) * ?u \<le> (n div ?u) * ?u" by (rule mult_le_mono1)
        moreover have "roundNat m \<le> (m div ?u + 1) * ?u"
          using roundNat_cases [OF mb] True by auto
        moreover have "(n div ?u) * ?u \<le> roundNat n"
          using roundNat_cases [OF nb] by auto
        ultimately show ?thesis by simp
      next
        case q: True
        have r: "m mod ?u \<le> n mod ?u"
          using assms q by (rule remainder_le)
        have rm: "roundNat m =
            (if ?u < 2 * (m mod ?u) \<or> (2 * (m mod ?u) = ?u \<and> odd (n div ?u))
             then (n div ?u + 1) * ?u else (n div ?u) * ?u)"
          using mb True q by (simp add: roundNat_def Let_def)
        have rn: "roundNat n =
            (if ?u < 2 * (n mod ?u) \<or> (2 * (n mod ?u) = ?u \<and> odd (n div ?u))
             then (n div ?u + 1) * ?u else (n div ?u) * ?u)"
          using nb by (simp add: roundNat_def Let_def)
        show ?thesis
          unfolding rm rn using r by (rule round_choice_mono)
      qed
    qed
  qed
qed

lemma toDouble_mono: "x \<le> y \<Longrightarrow> toDouble x \<le> toDouble y"
proof -
  assume xy: "x \<le> y"
  show ?thesis
  proof (cases "x < 0")
    case xneg: True
    show ?thesis
    proof (cases "y < 0")
      case True
      have "nat (- y) \<le> nat (- x)" using xy by simp
      then have "roundNat (nat (- y)) \<le> roundNat (nat (- x))" by (rule roundNat_mono)
      with xneg True show ?thesis by (simp add: toDouble_def)
    next
      case False
      with xneg show ?thesis by (simp add: toDouble_def)
    qed
  next
    case False
    with xy have "\<not> y < 0" by simp
    have "nat x \<le> nat y" using xy by simp
    then have "roundNat (nat x) \<le> roundNat (nat y)" by (rule roundNat_mono)
    with False \<open>\<not> y < 0\<close> show ?thesis by (simp add: toDouble_def)
  qed
qed

text \<open>Integers up to \<open>2 ^ 53\<close> in magnitude are doubles.\<close>

lemma toDouble_exact: "\<bar>x\<bar> \<le> 2 ^ 53 \<Longrightarrow> toDouble x = x"
  by (auto simp: toDouble_def roundNat_def)

text \<open>Against a double below \<open>2 ^ 53\<close> in magnitude, rounding does not change a comparison.\<close>

lemma toDouble_le_iff:
  assumes "- (2 ^ 53) \<le> y" and "y < 2 ^ 53"
  shows "toDouble x \<le> y \<longleftrightarrow> x \<le> y"
proof (cases "\<bar>x\<bar> \<le> 2 ^ 53")
  case True
  then show ?thesis by (simp add: toDouble_exact)
next
  case False
  show ?thesis
  proof (cases "x < 0")
    case True
    with False have "x \<le> - (2 ^ 53)" by simp
    from toDouble_mono [OF this] have "toDouble x \<le> - (2 ^ 53)"
      by (simp add: toDouble_exact)
    with assms \<open>x \<le> - (2 ^ 53)\<close> show ?thesis by simp
  next
    case xpos: False
    with False have "2 ^ 53 \<le> x" by simp
    from toDouble_mono [OF this] have "2 ^ 53 \<le> toDouble x"
      by (simp add: toDouble_exact)
    with assms \<open>2 ^ 53 \<le> x\<close> show ?thesis by simp
  qed
qed

text \<open>
  Above \<open>2 ^ 53\<close> the doubles are the even integers: \<open>2 ^ 53 + 4\<close> is one, and
  \<open>2 ^ 53 + 3\<close> lies halfway between \<open>2 ^ 53 + 2\<close> and \<open>2 ^ 53 + 4\<close>, whose significand is
  even.
\<close>

lemma bitLength_above_2_53:
  "bitLength 9007199254740995 = 54" "bitLength 9007199254740996 = 54"
proof -
  have "bitLength 9007199254740995 = Suc 53" by (rule bitLength_eq) simp_all
  then show "bitLength 9007199254740995 = 54" by simp
  have "bitLength 9007199254740996 = Suc 53" by (rule bitLength_eq) simp_all
  then show "bitLength 9007199254740996 = 54" by simp
qed

lemma toDouble_above_2_53:
  "toDouble 9007199254740995 = 9007199254740996"
  "toDouble 9007199254740996 = 9007199254740996"
  by (simp_all add: toDouble_def roundNat_def bitLength_above_2_53 Let_def)

section \<open>Properties of the job\<close>

subsection \<open>Auxiliary facts\<close>

lemma showNat_one: "showNat (Suc 0) = ''1''"
  by code_simp

text \<open>The loop computes the combined list, and makes no call but reads.\<close>

lemma gatherTargets_result:
  "fst (gatherTargets w gs acc tr) =
     (case combinedTargets w gs of Inl e \<Rightarrow> Inl e | Inr ts \<Rightarrow> Inr (acc @ ts))"
  by (induction gs arbitrary: acc tr) (simp_all split: sum.splits)

lemma gatherTargets_round_calls:
  "filter isRoundCall (snd (gatherTargets w gs acc tr)) = filter isRoundCall tr"
  by (induction gs arbitrary: acc tr) (simp_all split: sum.splits)

lemma gatherTargets_emits:
  "filter isEmit (snd (gatherTargets w gs acc tr)) = filter isEmit tr"
  by (induction gs arbitrary: acc tr) (simp_all split: sum.splits)

text \<open>Entering the nomination branch always leaves a mark: a log line, a call or a throw.\<close>

lemma gatherTargets_extends: "\<exists>tr'. snd (gatherTargets w gs acc tr) = tr @ tr'"
proof (induction gs arbitrary: acc tr)
  case Nil
  then show ?case by simp
next
  case (Cons g gs)
  show ?case
  proof (cases "getCurrentTargets w (bondedAddress g)")
    case (Inl e)
    then show ?thesis by simp
  next
    case (Inr ts)
    from Cons [of "acc @ ts" "tr @ [GetCurrentTargets (bondedAddress g)]"]
    obtain tr' where
      "snd (gatherTargets w gs (acc @ ts) (tr @ [GetCurrentTargets (bondedAddress g)]))
         = (tr @ [GetCurrentTargets (bondedAddress g)]) @ tr'"
      by blast
    with Inr show ?thesis by simp
  qed
qed

lemma nominationRound_not_silent: "nominationRound m w tr \<noteq> (Returned, tr)"
proof (cases "scorekeeperNominating m")
  case False
  then show ?thesis by (simp add: nominationRound_def)
next
  case on: True
  show ?thesis
  proof (cases "nominatorGroups m")
    case None
    with on show ?thesis by (simp add: nominationRound_def)
  next
    case (Some gs)
    obtain r tr' where g: "gatherTargets w gs [] tr = (r, tr')"
      by (cases "gatherTargets w gs [] tr")
    from gatherTargets_extends [of w gs "[]" tr] g obtain ex where ex: "tr' = tr @ ex"
      by auto
    show ?thesis
      using on Some g ex
      by (auto simp: nominationRound_def startOrRestart_def Let_def split: sum.splits)
  qed
qed

text \<open>
  With both reads answered and \<open>lastNominated \<le> activeEra - buffer\<close> over the integers,
  the comparison of the doubles holds as well, and the job enters the nomination branch.
\<close>

lemma job_eligible:
  assumes "\<not> ending m" and "getActiveEraIndex w = Inr (activeEra, err)" and "\<not> truthy err"
    and "getLastNominatedEraIndex w = Inr lastNominated"
    and "lastNominated \<le> activeEra - eraBuffer (networkPrefix m)"
  shows "mainScorekeeperJob m w =
           nominationRound m w [GetActiveEraIndex, GetLastNominatedEraIndex]"
  using assms toDouble_mono [OF assms(5)]
  by (simp add: mainScorekeeperJob_def Number_def jsMinus_def)

text \<open>The round calls of the nomination branch with nominating enabled.\<close>

lemma nominationRound_round_calls:
  assumes "scorekeeperNominating m" and "nominatorGroups m = Some gs"
    and "filter isRoundCall tr = []"
  shows "roundCalls (nominationRound m w tr) =
           (case combinedTargets w gs of
              Inl e \<Rightarrow> []
            | Inr ts \<Rightarrow>
                if ts = [] then [StartRound []]
                else (case endRound w of
                        Inl e \<Rightarrow> [EndRound]
                      | Inr u \<Rightarrow> [EndRound, StartRound ts]))"
proof -
  obtain r tr' where g: "gatherTargets w gs [] tr = (r, tr')"
    by (cases "gatherTargets w gs [] tr")
  from gatherTargets_result [of w gs "[]" tr] g
  have r: "r = (case combinedTargets w gs of Inl e \<Rightarrow> Inl e | Inr ts \<Rightarrow> Inr ts)"
    by (simp split: sum.splits)
  from gatherTargets_round_calls [of w gs "[]" tr] g assms(3)
  have f: "filter isRoundCall tr' = []"
    by simp
  show ?thesis
    using assms(1,2) g r f
    by (auto simp: nominationRound_def startOrRestart_def roundCalls_def Let_def
             split: sum.splits)
qed

text \<open>
  With at least one group the progress is the floor of \<open>100 / totalGroups\<close>, an integer
  between 0 and 100.
\<close>

lemma progressPercentage_positive:
  assumes "0 < n"
  shows "\<exists>k. progressPercentage n = Num k \<and> k = 100 div int n \<and> 0 \<le> k \<and> k \<le> 100"
proof -
  have "(100::int) div int n \<le> 100 div 1"
    using assms by (intro zdiv_mono2) simp_all
  moreover have "0 \<le> (100::int) div int n"
    using assms by (simp add: pos_imp_zdiv_nonneg_iff)
  ultimately show ?thesis
    using assms by (simp add: progressPercentage_def)
qed

text \<open>When the reads and the round calls all return, exactly one event is emitted.\<close>

lemma job_emits_one_event:
  assumes "\<not> ending m" and "getActiveEraIndex w = Inr (activeEra, err)" and "\<not> truthy err"
    and "getLastNominatedEraIndex w = Inr lastNominated"
    and "lastNominated \<le> activeEra - eraBuffer (networkPrefix m)"
    and "scorekeeperNominating m" and "nominatorGroups m = Some gs"
    and "combinedTargets w gs = Inr ts" and "endRound w = Inr ()" and "startRound w = Inr ()"
  shows "emitted (mainScorekeeperJob m w) =
           [Emit ''jobProgress''
              \<lparr>name = ''Main Scorekeeper Job'', progress = progressPercentage (length gs),
               updated = now w, iteration = ''Processed nominator group 1''\<rparr>]"
proof -
  let ?tr = "[GetActiveEraIndex, GetLastNominatedEraIndex]"
  obtain r tr' where g: "gatherTargets w gs [] ?tr = (r, tr')"
    by (cases "gatherTargets w gs [] ?tr")
  from gatherTargets_result [of w gs "[]" ?tr] g assms(8)
  have r: "r = Inr ts" by simp
  from gatherTargets_emits [of w gs "[]" ?tr] g
  have f: "filter isEmit tr' = []" by simp
  show ?thesis
    unfolding job_eligible [OF assms(1-5)]
    using assms(6,7,9,10) g r f
    by (simp add: nominationRound_def startOrRestart_def emitted_def Let_def showNat_one)
qed

subsection \<open>The claims about the job\<close>

text \<open>
  C1, as stated, fails: the job compares doubles, and above \<open>2 ^ 53\<close> a subtraction is
  rounded. With the active era and the last nominated era both \<open>2 ^ 53 + 4\<close> on network
  prefix 0, \<open>LastNominatedEraIndex \<le> ActiveEra - EraBuffer\<close> is false, but
  \<open>ActiveEra - 1\<close> rounds to \<open>2 ^ 53 + 4\<close> and the job takes the nomination branch: it
  ends and starts a round.
\<close>

theorem C1_large_era_counterexample:
  "\<not> ending exampleMetadata
   \<and> networkPrefix exampleMetadata = 0
   \<and> getActiveEraIndex (exampleWorld\<lparr>getActiveEraIndex := Inr (9007199254740996, None),
                                       getLastNominatedEraIndex := Inr 9007199254740996\<rparr>)
       = Inr (9007199254740996, None)
   \<and> getLastNominatedEraIndex (exampleWorld\<lparr>getActiveEraIndex := Inr (9007199254740996, None),
                                              getLastNominatedEraIndex := Inr 9007199254740996\<rparr>)
       = Inr 9007199254740996
   \<and> \<not> (9007199254740996::int) \<le> 9007199254740996 - 1
   \<and> roundCalls (mainScorekeeperJob exampleMetadata
        (exampleWorld\<lparr>getActiveEraIndex := Inr (9007199254740996, None),
                       getLastNominatedEraIndex := Inr 9007199254740996\<rparr>))
       = [EndRound,
          StartRound [\<lparr>targetName = Some ''v1'', targetStash = Some ''s1'', targetIdentity = None\<rparr>]]"
  by (simp add: exampleMetadata_def exampleWorld_def eraBuffer_def mainScorekeeperJob_def
        Number_def jsMinus_def toDouble_above_2_53 nominationRound_def startOrRestart_def
        roundCalls_def Let_def)

text \<open>
  C1, amended. With \<open>ending\<close> false, an era read without error and the last nominated
  era read, and with an active era from 0 to \<open>2 ^ 53\<close>, the job takes the nomination
  branch exactly when \<open>LastNominatedEraIndex \<le> ActiveEra - EraBuffer\<close>, where the buffer
  is 1 for network prefix 0 and 4 for every other prefix. Taking the branch is visible
  from outside: when it is not taken the job resolves after its two reads, and when it
  is taken it never does only that.
\<close>

theorem C1_eligibility:
  assumes "\<not> ending m" and "getActiveEraIndex w = Inr (activeEra, err)" and "\<not> truthy err"
    and "getLastNominatedEraIndex w = Inr lastNominated"
    and "0 \<le> activeEra" and "activeEra \<le> 2 ^ 53"
  shows "mainScorekeeperJob m w =
           (if lastNominated \<le> activeEra - (if networkPrefix m = 0 then 1 else 4)
            then nominationRound m w [GetActiveEraIndex, GetLastNominatedEraIndex]
            else (Returned, [GetActiveEraIndex, GetLastNominatedEraIndex]))
       \<and> ((mainScorekeeperJob m w \<noteq> (Returned, [GetActiveEraIndex, GetLastNominatedEraIndex]))
            = (lastNominated \<le> activeEra - (if networkPrefix m = 0 then 1 else 4)))"
proof -
  let ?y = "activeEra - eraBuffer (networkPrefix m)"
  have lo: "- (2 ^ 53) \<le> ?y" and hi: "?y < 2 ^ 53"
    using assms(5,6) by (simp_all add: eraBuffer_def)
  then have "\<bar>?y\<bar> \<le> 2 ^ 53" by simp
  then have "toDouble ?y = ?y" by (rule toDouble_exact)
  with toDouble_le_iff [OF lo hi, of lastNominated]
  have cmp: "(Number lastNominated \<le> jsMinus activeEra (eraBuffer (networkPrefix m)))
               = (lastNominated \<le> ?y)"
    by (simp add: Number_def jsMinus_def)
  have job: "mainScorekeeperJob m w =
           (if lastNominated \<le> ?y
            then nominationRound m w [GetActiveEraIndex, GetLastNominatedEraIndex]
            else (Returned, [GetActiveEraIndex, GetLastNominatedEraIndex]))"
    using assms(1-4) by (simp add: mainScorekeeperJob_def cmp)
  show ?thesis
    using job nominationRound_not_silent [of m w "[GetActiveEraIndex, GetLastNominatedEraIndex]"]
    by (simp add: eraBuffer_def)
qed

text \<open>
  The two scenarios of the specification: era 100, last nominated 95, prefix 0 is
  eligible (95 \<open>\<le>\<close> 99); era 100, last nominated 98, prefix 2 is not (98 \<open>\<le>\<close> 96 fails).
\<close>

theorem C1_eligibility_witness:
  "\<not> ending exampleMetadata
   \<and> getActiveEraIndex exampleWorld = Inr (100, None) \<and> \<not> truthy None
   \<and> getLastNominatedEraIndex exampleWorld = Inr 95
   \<and> (0::int) \<le> 100 \<and> (100::int) \<le> 2 ^ 53
   \<and> mainScorekeeperJob exampleMetadata exampleWorld
       \<noteq> (Returned, [GetActiveEraIndex, GetLastNominatedEraIndex])
   \<and> \<not> ending (exampleMetadata\<lparr>networkPrefix := 2\<rparr>)
   \<and> getActiveEraIndex (exampleWorld\<lparr>getLastNominatedEraIndex := Inr 98\<rparr>) = Inr (100, None)
   \<and> getLastNominatedEraIndex (exampleWorld\<lparr>getLastNominatedEraIndex := Inr 98\<rparr>) = Inr 98
   \<and> mainScorekeeperJob (exampleMetadata\<lparr>networkPrefix := 2\<rparr>)
         (exampleWorld\<lparr>getLastNominatedEraIndex := Inr 98\<rparr>)
       = (Returned, [GetActiveEraIndex, GetLastNominatedEraIndex])"
proof -
  have a: "\<not> ending exampleMetadata" "getActiveEraIndex exampleWorld = Inr (100, None)"
    "\<not> truthy None" "getLastNominatedEraIndex exampleWorld = Inr 95"
    "(0::int) \<le> 100" "(100::int) \<le> 2 ^ 53"
    by (simp_all add: exampleMetadata_def exampleWorld_def)
  have b: "\<not> ending (exampleMetadata\<lparr>networkPrefix := 2\<rparr>)"
    "getActiveEraIndex (exampleWorld\<lparr>getLastNominatedEraIndex := Inr 98\<rparr>) = Inr (100, None)"
    "\<not> truthy None"
    "getLastNominatedEraIndex (exampleWorld\<lparr>getLastNominatedEraIndex := Inr 98\<rparr>) = Inr 98"
    "(0::int) \<le> 100" "(100::int) \<le> 2 ^ 53"
    by (simp_all add: exampleMetadata_def exampleWorld_def)
  have "(95::int) \<le> 100 - (if networkPrefix exampleMetadata = 0 then 1 else 4)"
    by (simp add: exampleMetadata_def)
  with C1_eligibility [OF a, THEN conjunct2]
  have c: "mainScorekeeperJob exampleMetadata exampleWorld
             \<noteq> (Returned, [GetActiveEraIndex, GetLastNominatedEraIndex])"
    by blast
  have "\<not> (98::int) \<le> 100 - (if networkPrefix (exampleMetadata\<lparr>networkPrefix := 2\<rparr>) = 0
                                 then 1 else 4)"
    by simp
  with C1_eligibility [OF b, THEN conjunct2]
  have d: "mainScorekeeperJob (exampleMetadata\<lparr>networkPrefix := 2\<rparr>)
             (exampleWorld\<lparr>getLastNominatedEraIndex := Inr 98\<rparr>)
           = (Returned, [GetActiveEraIndex, GetLastNominatedEraIndex])"
    by blast
  from a b c d show ?thesis by blast
qed

text \<open>
  C2, as stated, fails: the job awaits \<open>EndRound\<close> outside any \<^verbatim>\<open>try\<close> block, so when
  \<open>EndRound\<close> throws, \<open>StartRound\<close> is not called. At the example input, where the
  combined target list is not empty, with an \<open>EndRound\<close> that throws, the only round
  call is \<open>EndRound\<close>, and the promise of the job is rejected with the thrown value.
\<close>

theorem C2_end_round_fails_counterexample:
  "combinedTargets (exampleWorld\<lparr>endRound := Inl exampleError\<rparr>)
       [\<lparr>bondedAddress = ''g1''\<rparr>, \<lparr>bondedAddress = ''g2''\<rparr>, \<lparr>bondedAddress = ''g3''\<rparr>]
     = Inr [\<lparr>targetName = Some ''v1'', targetStash = Some ''s1'', targetIdentity = None\<rparr>]
   \<and> mainScorekeeperJob exampleMetadata (exampleWorld\<lparr>endRound := Inl exampleError\<rparr>)
     = (Threw exampleError,
        [GetActiveEraIndex, GetLastNominatedEraIndex,
         GetCurrentTargets ''g1'', GetCurrentTargets ''g2'', GetCurrentTargets ''g3'',
         LogInfo ''Ending round.'', EndRound])
   \<and> roundCalls (mainScorekeeperJob exampleMetadata (exampleWorld\<lparr>endRound := Inl exampleError\<rparr>))
     = [EndRound]"
proof -
  have e: "mainScorekeeperJob exampleMetadata (exampleWorld\<lparr>endRound := Inl exampleError\<rparr>) =
      nominationRound exampleMetadata (exampleWorld\<lparr>endRound := Inl exampleError\<rparr>)
        [GetActiveEraIndex, GetLastNominatedEraIndex]"
    by (rule job_eligible [where activeEra = 100 and err = None and lastNominated = 95])
       (simp_all add: exampleMetadata_def exampleWorld_def eraBuffer_def)
  show ?thesis
    unfolding e
    by (simp add: exampleMetadata_def exampleWorld_def nominationRound_def startOrRestart_def
          roundCalls_def Let_def)
qed

text \<open>
  C2, amended. In an invocation that reaches the eligible branch with nominating
  enabled: when every \<open>getCurrentTargets\<close> call returns and the combined list is empty,
  the only round call is one \<open>StartRound\<close>; when the combined list is not empty,
  \<open>EndRound\<close> is called exactly once, first, and then \<open>StartRound\<close> is called exactly
  once if \<open>EndRound\<close> returns and not at all if \<open>EndRound\<close> throws. When a
  \<open>getCurrentTargets\<close> call throws there is no round call.
\<close>

theorem C2_round_calls:
  assumes "\<not> ending m" and "getActiveEraIndex w = Inr (activeEra, err)" and "\<not> truthy err"
    and "getLastNominatedEraIndex w = Inr lastNominated"
    and "lastNominated \<le> activeEra - eraBuffer (networkPrefix m)"
    and "scorekeeperNominating m" and "nominatorGroups m = Some gs"
  shows "roundCalls (mainScorekeeperJob m w) =
           (case combinedTargets w gs of
              Inl e \<Rightarrow> []
            | Inr ts \<Rightarrow>
                if ts = [] then [StartRound []]
                else (case endRound w of
                        Inl e \<Rightarrow> [EndRound]
                      | Inr u \<Rightarrow> [EndRound, StartRound ts]))"
  unfolding job_eligible [OF assms(1-5)]
  by (rule nominationRound_round_calls [OF assms(6,7)]) simp

theorem C2_round_calls_witness:
  "\<not> ending exampleMetadata
   \<and> getActiveEraIndex exampleWorld = Inr (100, None) \<and> \<not> truthy None
   \<and> getLastNominatedEraIndex exampleWorld = Inr 95
   \<and> (95::int) \<le> 100 - eraBuffer (networkPrefix exampleMetadata)
   \<and> scorekeeperNominating exampleMetadata
   \<and> nominatorGroups exampleMetadata
       = Some [\<lparr>bondedAddress = ''g1''\<rparr>, \<lparr>bondedAddress = ''g2''\<rparr>, \<lparr>bondedAddress = ''g3''\<rparr>]
   \<and> roundCalls (mainScorekeeperJob exampleMetadata exampleWorld)
       = [EndRound,
          StartRound [\<lparr>targetName = Some ''v1'', targetStash = Some ''s1'', targetIdentity = None\<rparr>]]"
proof -
  have h: "\<not> ending exampleMetadata" "getActiveEraIndex exampleWorld = Inr (100, None)"
    "\<not> truthy None" "getLastNominatedEraIndex exampleWorld = Inr 95"
    "(95::int) \<le> 100 - eraBuffer (networkPrefix exampleMetadata)"
    "scorekeeperNominating exampleMetadata"
    "nominatorGroups exampleMetadata
       = Some [\<lparr>bondedAddress = ''g1''\<rparr>, \<lparr>bondedAddress = ''g2''\<rparr>, \<lparr>bondedAddress = ''g3''\<rparr>]"
    by (simp_all add: exampleMetadata_def exampleWorld_def eraBuffer_def)
  have "roundCalls (mainScorekeeperJob exampleMetadata exampleWorld)
       = [EndRound,
          StartRound [\<lparr>targetName = Some ''v1'', targetStash = Some ''s1'', targetIdentity = None\<rparr>]]"
    unfolding C2_round_calls [OF h] by (simp add: exampleWorld_def)
  with h show ?thesis by blast
qed

text \<open>
  C3, as stated, fails: with an empty group collection the eligible, enabled invocation
  is not a no-op. At the example input with no groups it calls \<open>StartRound\<close> and emits
  an event.
\<close>

theorem C3_empty_groups_counterexample:
  "\<not> ending (exampleMetadata\<lparr>nominatorGroups := Some []\<rparr>)
   \<and> getActiveEraIndex exampleWorld = Inr (100, None)
   \<and> getLastNominatedEraIndex exampleWorld = Inr 95
   \<and> (95::int) \<le> 100 - eraBuffer (networkPrefix (exampleMetadata\<lparr>nominatorGroups := Some []\<rparr>))
   \<and> scorekeeperNominating (exampleMetadata\<lparr>nominatorGroups := Some []\<rparr>)
   \<and> nominatorGroups (exampleMetadata\<lparr>nominatorGroups := Some []\<rparr>) = Some []
   \<and> roundCalls (mainScorekeeperJob (exampleMetadata\<lparr>nominatorGroups := Some []\<rparr>) exampleWorld)
       = [StartRound []]
   \<and> length (emitted (mainScorekeeperJob (exampleMetadata\<lparr>nominatorGroups := Some []\<rparr>)
                exampleWorld)) = 1"
proof -
  have e: "mainScorekeeperJob (exampleMetadata\<lparr>nominatorGroups := Some []\<rparr>) exampleWorld =
      nominationRound (exampleMetadata\<lparr>nominatorGroups := Some []\<rparr>) exampleWorld
        [GetActiveEraIndex, GetLastNominatedEraIndex]"
    by (rule job_eligible [where activeEra = 100 and err = None and lastNominated = 95])
       (simp_all add: exampleMetadata_def exampleWorld_def eraBuffer_def)
  show ?thesis
    unfolding e
    by (simp add: exampleMetadata_def exampleWorld_def eraBuffer_def nominationRound_def
          startOrRestart_def roundCalls_def emitted_def Let_def)
qed

text \<open>
  C3, amended. With \<open>ending\<close> false, an era read without error, eligibility and
  nominating enabled, an empty group collection does not make the invocation a no-op:
  the job calls no \<open>getCurrentTargets\<close>, calls \<open>StartRound\<close> exactly once, with an
  empty target list, and never calls \<open>EndRound\<close>. This holds whether \<open>StartRound\<close>
  returns or throws.
\<close>

theorem C3_empty_groups_start_round:
  assumes "\<not> ending m" and "getActiveEraIndex w = Inr (activeEra, err)" and "\<not> truthy err"
    and "getLastNominatedEraIndex w = Inr lastNominated"
    and "lastNominated \<le> activeEra - eraBuffer (networkPrefix m)"
    and "scorekeeperNominating m" and "nominatorGroups m = Some []"
  shows "roundCalls (mainScorekeeperJob m w) = [StartRound []]
       \<and> filter isRead (snd (mainScorekeeperJob m w))
           = [GetActiveEraIndex, GetLastNominatedEraIndex]"
  unfolding job_eligible [OF assms(1-5)]
  using assms(6,7)
  by (simp add: nominationRound_def startOrRestart_def roundCalls_def Let_def
           split: sum.splits)

theorem C3_empty_groups_start_round_witness:
  "\<not> ending (exampleMetadata\<lparr>nominatorGroups := Some []\<rparr>)
   \<and> getActiveEraIndex (exampleWorld\<lparr>startRound := Inl exampleError\<rparr>) = Inr (100, None)
   \<and> \<not> truthy None
   \<and> getLastNominatedEraIndex (exampleWorld\<lparr>startRound := Inl exampleError\<rparr>) = Inr 95
   \<and> (95::int) \<le> 100 - eraBuffer (networkPrefix (exampleMetadata\<lparr>nominatorGroups := Some []\<rparr>))
   \<and> scorekeeperNominating (exampleMetadata\<lparr>nominatorGroups := Some []\<rparr>)
   \<and> nominatorGroups (exampleMetadata\<lparr>nominatorGroups := Some []\<rparr>) = Some []
   \<and> roundCalls (mainScorekeeperJob (exampleMetadata\<lparr>nominatorGroups := Some []\<rparr>)
                   (exampleWorld\<lparr>startRound := Inl exampleError\<rparr>))
       = [StartRound []]
   \<and> filter isRead (snd (mainScorekeeperJob (exampleMetadata\<lparr>nominatorGroups := Some []\<rparr>)
                           (exampleWorld\<lparr>startRound := Inl exampleError\<rparr>)))
       = [GetActiveEraIndex, GetLastNominatedEraIndex]"
proof -
  have h: "\<not> ending (exampleMetadata\<lparr>nominatorGroups := Some []\<rparr>)"
    "getActiveEraIndex (exampleWorld\<lparr>startRound := Inl exampleError\<rparr>) = Inr (100, None)"
    "\<not> truthy None"
    "getLastNominatedEraIndex (exampleWorld\<lparr>startRound := Inl exampleError\<rparr>) = Inr 95"
    "(95::int) \<le> 100 - eraBuffer (networkPrefix (exampleMetadata\<lparr>nominatorGroups := Some []\<rparr>))"
    "scorekeeperNominating (exampleMetadata\<lparr>nominatorGroups := Some []\<rparr>)"
    "nominatorGroups (exampleMetadata\<lparr>nominatorGroups := Some []\<rparr>) = Some []"
    by (simp_all add: exampleMetadata_def exampleWorld_def eraBuffer_def)
  from h C3_empty_groups_start_round [OF h] show ?thesis by blast
qed

text \<open>
  C4. The progress field of the emitted event is meant to be a percentage, an integer
  from 0 to 100. With an empty group collection the job divides by zero: the one event
  it emits under \<open>jobProgress\<close> carries \<open>Infinity\<close>.
\<close>

theorem C4_progress_infinity:
  "emitted (mainScorekeeperJob (exampleMetadata\<lparr>nominatorGroups := Some []\<rparr>) exampleWorld)
     = [Emit ''jobProgress''
          \<lparr>name = ''Main Scorekeeper Job'', progress = PosInfinity,
           updated = 1700000000000, iteration = ''Processed nominator group 1''\<rparr>]"
proof -
  have e: "mainScorekeeperJob (exampleMetadata\<lparr>nominatorGroups := Some []\<rparr>) exampleWorld =
      nominationRound (exampleMetadata\<lparr>nominatorGroups := Some []\<rparr>) exampleWorld
        [GetActiveEraIndex, GetLastNominatedEraIndex]"
    by (rule job_eligible [where activeEra = 100 and err = None and lastNominated = 95])
       (simp_all add: exampleMetadata_def exampleWorld_def eraBuffer_def)
  show ?thesis
    unfolding e
    by (simp add: exampleMetadata_def exampleWorld_def nominationRound_def startOrRestart_def
          emitted_def progressPercentage_def showNat_one Let_def)
qed

text \<open>
  C5. With \<open>ending\<close> true the job logs one line and returns: it reads neither the chain
  nor the round state, calls neither \<open>StartRound\<close> nor \<open>EndRound\<close>, and emits nothing,
  whatever the collaborators would have done.
\<close>

theorem C5_ending:
  assumes "ending m"
  shows "mainScorekeeperJob m w = (Returned, [LogInfo ''ROUND IS CURRENTLY ENDING.''])
       \<and> filter isRead (snd (mainScorekeeperJob m w)) = []
       \<and> roundCalls (mainScorekeeperJob m w) = []
       \<and> emitted (mainScorekeeperJob m w) = []"
  using assms by (simp add: mainScorekeeperJob_def roundCalls_def emitted_def)

theorem C5_ending_witness:
  "ending (exampleMetadata\<lparr>ending := True\<rparr>)
   \<and> mainScorekeeperJob (exampleMetadata\<lparr>ending := True\<rparr>) exampleWorld
       = (Returned, [LogInfo ''ROUND IS CURRENTLY ENDING.''])
   \<and> filter isRead (snd (mainScorekeeperJob (exampleMetadata\<lparr>ending := True\<rparr>) exampleWorld)) = []
   \<and> roundCalls (mainScorekeeperJob (exampleMetadata\<lparr>ending := True\<rparr>) exampleWorld) = []
   \<and> emitted (mainScorekeeperJob (exampleMetadata\<lparr>ending := True\<rparr>) exampleWorld) = []"
proof -
  have h: "ending (exampleMetadata\<lparr>ending := True\<rparr>)"
    by simp
  from h C5_ending [OF h, of exampleWorld] show ?thesis by blast
qed

text \<open>
  C6, as stated, fails: the job tests the error with \<^verbatim>\<open>if (err)\<close>, and an error that is
  not null but is the empty string is taken as no error. At the example input with such
  an error the job goes on to end and start a round and emits an event.
\<close>

theorem C6_empty_error_counterexample:
  "\<not> ending exampleMetadata
   \<and> getActiveEraIndex (exampleWorld\<lparr>getActiveEraIndex := Inr (100, Some [])\<rparr>)
       = Inr (100, Some [])
   \<and> roundCalls (mainScorekeeperJob exampleMetadata
                   (exampleWorld\<lparr>getActiveEraIndex := Inr (100, Some [])\<rparr>))
       = [EndRound,
          StartRound [\<lparr>targetName = Some ''v1'', targetStash = Some ''s1'', targetIdentity = None\<rparr>]]
   \<and> length (emitted (mainScorekeeperJob exampleMetadata
                        (exampleWorld\<lparr>getActiveEraIndex := Inr (100, Some [])\<rparr>))) = 1"
proof -
  have e: "mainScorekeeperJob exampleMetadata
             (exampleWorld\<lparr>getActiveEraIndex := Inr (100, Some [])\<rparr>) =
      nominationRound exampleMetadata (exampleWorld\<lparr>getActiveEraIndex := Inr (100, Some [])\<rparr>)
        [GetActiveEraIndex, GetLastNominatedEraIndex]"
    by (rule job_eligible [where activeEra = 100 and err = "Some []" and lastNominated = 95])
       (simp_all add: exampleMetadata_def exampleWorld_def eraBuffer_def)
  show ?thesis
    unfolding e
    by (simp add: exampleMetadata_def exampleWorld_def nominationRound_def startOrRestart_def
          roundCalls_def emitted_def Let_def)
qed

text \<open>
  C6, amended. When \<open>getActiveEraIndex\<close> returns an error that is neither null nor the
  empty string, the job logs a warning and returns: no round state is read,
  \<open>StartRound\<close> and \<open>EndRound\<close> are not called and nothing is emitted.
\<close>

theorem C6_era_error:
  assumes "\<not> ending m" and "getActiveEraIndex w = Inr (activeEra, Some err)" and "err \<noteq> []"
  shows "mainScorekeeperJob m w = (Returned, [GetActiveEraIndex, LogWarn (''CRITICAL: '' @ err)])
       \<and> roundCalls (mainScorekeeperJob m w) = []
       \<and> emitted (mainScorekeeperJob m w) = []"
  using assms
  by (simp add: mainScorekeeperJob_def roundCalls_def emitted_def)

theorem C6_era_error_witness:
  "\<not> ending exampleMetadata
   \<and> getActiveEraIndex (exampleWorld\<lparr>getActiveEraIndex := Inr (0, Some ''RPC down'')\<rparr>)
       = Inr (0, Some ''RPC down'')
   \<and> ''RPC down'' \<noteq> []
   \<and> mainScorekeeperJob exampleMetadata
        (exampleWorld\<lparr>getActiveEraIndex := Inr (0, Some ''RPC down'')\<rparr>)
       = (Returned, [GetActiveEraIndex, LogWarn (''CRITICAL: '' @ ''RPC down'')])
   \<and> roundCalls (mainScorekeeperJob exampleMetadata
                   (exampleWorld\<lparr>getActiveEraIndex := Inr (0, Some ''RPC down'')\<rparr>)) = []
   \<and> emitted (mainScorekeeperJob exampleMetadata
                (exampleWorld\<lparr>getActiveEraIndex := Inr (0, Some ''RPC down'')\<rparr>)) = []"
proof -
  have h: "\<not> ending exampleMetadata"
    "getActiveEraIndex (exampleWorld\<lparr>getActiveEraIndex := Inr (0, Some ''RPC down'')\<rparr>)
       = Inr (0, Some ''RPC down'')"
    "''RPC down'' \<noteq> []"
    by (simp_all add: exampleMetadata_def)
  from h C6_era_error [OF h] show ?thesis by blast
qed

text \<open>
  C7. When the invocation is eligible but \<^verbatim>\<open>config.scorekeeper.nominating\<close> is off, the
  job logs one line and returns: \<open>StartRound\<close> and \<open>EndRound\<close> are not called and nothing
  is emitted.
\<close>

theorem C7_nominating_disabled:
  assumes "\<not> ending m" and "getActiveEraIndex w = Inr (activeEra, err)" and "\<not> truthy err"
    and "getLastNominatedEraIndex w = Inr lastNominated"
    and "lastNominated \<le> activeEra - eraBuffer (networkPrefix m)"
    and "\<not> scorekeeperNominating m"
  shows "mainScorekeeperJob m w =
           (Returned, [GetActiveEraIndex, GetLastNominatedEraIndex,
                       LogInfo ''Nominating is disabled in the settings. Skipping round.''])
       \<and> roundCalls (mainScorekeeperJob m w) = []
       \<and> emitted (mainScorekeeperJob m w) = []"
  unfolding job_eligible [OF assms(1-5)]
  using assms(6)
  by (simp add: nominationRound_def roundCalls_def emitted_def Let_def)

theorem C7_nominating_disabled_witness:
  "\<not> ending (exampleMetadata\<lparr>scorekeeperNominating := False\<rparr>)
   \<and> getActiveEraIndex exampleWorld = Inr (100, None) \<and> \<not> truthy None
   \<and> getLastNominatedEraIndex exampleWorld = Inr 95
   \<and> (95::int) \<le> 100 - eraBuffer (networkPrefix (exampleMetadata\<lparr>scorekeeperNominating := False\<rparr>))
   \<and> \<not> scorekeeperNominating (exampleMetadata\<lparr>scorekeeperNominating := False\<rparr>)
   \<and> roundCalls (mainScorekeeperJob (exampleMetadata\<lparr>scorekeeperNominating := False\<rparr>)
                   exampleWorld) = []
   \<and> emitted (mainScorekeeperJob (exampleMetadata\<lparr>scorekeeperNominating := False\<rparr>)
                exampleWorld) = []"
proof -
  have h: "\<not> ending (exampleMetadata\<lparr>scorekeeperNominating := False\<rparr>)"
    "getActiveEraIndex exampleWorld = Inr (100, None)" "\<not> truthy None"
    "getLastNominatedEraIndex exampleWorld = Inr 95"
    "(95::int) \<le> 100 - eraBuffer (networkPrefix (exampleMetadata\<lparr>scorekeeperNominating := False\<rparr>))"
    "\<not> scorekeeperNominating (exampleMetadata\<lparr>scorekeeperNominating := False\<rparr>)"
    by (simp_all add: exampleMetadata_def exampleWorld_def eraBuffer_def)
  from h C7_nominating_disabled [OF h] show ?thesis by blast
qed

section \<open>Properties of the chain queries\<close>

subsection \<open>Auxiliary facts\<close>















lemma viaApi_exampleChain:
  "viaApi exampleChain (\<lambda>a. staking_bonded a s) = staking_bonded exampleApi s"
  "viaApi exampleChain (\<lambda>a. staking_ledger a s) = staking_ledger exampleApi s"
  "viaApi exampleChain (\<lambda>a. staking_validators a s) = staking_validators exampleApi s"
  by (simp_all add: viaApi_def exampleChain_def)

subsection \<open>The claims about the queries\<close>




text \<open>
  C9. After a connection check that passes, \<open>getBondedAmount\<close> gives 0 with the reason
  \<open>Not bonded to any account.\<close> when the bonded entry is missing or empty, 0 with the
  reason \<open>Ledger is empty.\<close> when the ledger is missing or empty, and the active amount
  with a null reason otherwise; \<open>getCommission\<close> gives 0 with the reason
  \<open>No preferences found.\<close> when there are no preferences and the commission with a null
  reason otherwise. A value of 0 that was read and a value that is unknown differ in the
  reason.
\<close>

theorem C9_reasons:
  assumes "checkApiConnection c = Inr ()"
  shows "(viaApi c (\<lambda>a. staking_bonded a st) = Inr None \<longrightarrow>
            fst (getBondedAmount c st) = Inr (0, Value ''Not bonded to any account.''))
       \<and> (\<forall>b. viaApi c (\<lambda>a. staking_bonded a st) = Inr (Some b) \<and> bondedIsNone b \<longrightarrow>
            fst (getBondedAmount c st) = Inr (0, Value ''Not bonded to any account.''))
       \<and> (\<forall>b. viaApi c (\<lambda>a. staking_bonded a st) = Inr (Some b) \<and> \<not> bondedIsNone b
              \<and> viaApi c (\<lambda>a. staking_ledger a (bondedToString b)) = Inr None \<longrightarrow>
            fst (getBondedAmount c st) = Inr (0, Value ''Ledger is empty.''))
       \<and> (\<forall>b l. viaApi c (\<lambda>a. staking_bonded a st) = Inr (Some b) \<and> \<not> bondedIsNone b
              \<and> viaApi c (\<lambda>a. staking_ledger a (bondedToString b)) = Inr (Some l)
              \<and> ledgerIsNone l \<longrightarrow>
            fst (getBondedAmount c st) = Inr (0, Value ''Ledger is empty.''))
       \<and> (\<forall>b l. viaApi c (\<lambda>a. staking_bonded a st) = Inr (Some b) \<and> \<not> bondedIsNone b
              \<and> viaApi c (\<lambda>a. staking_ledger a (bondedToString b)) = Inr (Some l)
              \<and> \<not> ledgerIsNone l \<longrightarrow>
            fst (getBondedAmount c st) = Inr (ledgerActive l, Null))
       \<and> (viaApi c (\<lambda>a. staking_validators a st) = Inr None \<longrightarrow>
            fst (getCommission c st) = Inr (0, Value ''No preferences found.''))
       \<and> (\<forall>p n. viaApi c (\<lambda>a. staking_validators a st) = Inr (Some p) \<and> commission p = Some n \<longrightarrow>
            fst (getCommission c st) = Inr (n, Null))"
  using assms
  by (simp add: getBondedAmount_def getCommission_def andThen_def tryCatch_def)

text \<open>
  On the example chain: \<open>erin\<close> is unknown and \<open>bob\<close> has an empty bonded entry,
  \<open>dave\<close> has no ledger and \<open>carol\<close> an empty one, \<open>alice\<close> has 1000 bonded and a
  commission of 5.
\<close>

theorem C9_reasons_witness:
  "checkApiConnection exampleChain = Inr ()
   \<and> fst (getBondedAmount exampleChain ''erin'') = Inr (0, Value ''Not bonded to any account.'')
   \<and> fst (getBondedAmount exampleChain ''bob'') = Inr (0, Value ''Not bonded to any account.'')
   \<and> fst (getBondedAmount exampleChain ''dave'') = Inr (0, Value ''Ledger is empty.'')
   \<and> fst (getBondedAmount exampleChain ''carol'') = Inr (0, Value ''Ledger is empty.'')
   \<and> fst (getBondedAmount exampleChain ''alice'') = Inr (1000, Null)
   \<and> fst (getCommission exampleChain ''bob'') = Inr (0, Value ''No preferences found.'')
   \<and> fst (getCommission exampleChain ''alice'') = Inr (5, Null)"
proof -
  have h: "checkApiConnection exampleChain = Inr ()"
    by (simp add: exampleChain_def)
  show ?thesis
    using h C9_reasons [OF h, of "''erin''"] C9_reasons [OF h, of "''bob''"]
      C9_reasons [OF h, of "''dave''"] C9_reasons [OF h, of "''carol''"]
      C9_reasons [OF h, of "''alice''"]
    by (simp add: exampleApi_def viaApi_exampleChain)
qed




end
